theory Spec2Isabelle
  imports Complex_Main "HOL-Library.AList"
begin

section \<open>The Pyomo adapter of nevergrad: data model\<close>

text \<open>
  The development embeds \<^verbatim>\<open>nevergrad/functions/pyomo/core.py\<close>: the translation of the
  variables of a Pyomo model into nevergrad parameters, the construction of the adapter
  and its two evaluation wrappers. Exceptions are values of a sum type, dictionaries are
  association lists in insertion order, and the mutable model instance is passed
  explicitly.
\<close>

subsection \<open>Double-precision numbers\<close>

text \<open>
  A Python \<^verbatim>\<open>float\<close> is an IEEE binary64 number. A number that is not a NaN is
  represented by the ordinal of its bit pattern: the 63 bits below the sign bit, read
  as a natural number, with the sign of the number (the two zeros share the ordinal 0).
  The ordinals of the finite numbers are those of absolute value below
  \<open>2047 * 2 ^ 52\<close>, which is the ordinal of infinity. \<open>double_val\<close> is the number an
  ordinal stands for; it is strictly increasing (\<open>double_val_strict_mono\<close> below), so
  that the order of the ordinals is the order of the numbers, and the successor of an
  ordinal is the next representable number.
\<close>

type_synonym double = int

definition double_inf :: double where
  "double_inf = 2047 * 2 ^ 52"

definition double_finite :: "double \<Rightarrow> bool" where
  "double_finite k = (\<bar>k\<bar> < double_inf)"

text \<open>The value of a non-negative ordinal, in units of \<open>2 ^ - 1074\<close>: the biased exponent
  is the quotient by \<open>2 ^ 52\<close>, the fraction the remainder; the exponent 0 holds the
  subnormal numbers.\<close>

definition double_scaled :: "nat \<Rightarrow> nat" where
  "double_scaled n =
     (let e = n div 2 ^ 52; m = n mod 2 ^ 52
      in if e = 0 then m else (2 ^ 52 + m) * 2 ^ (e - 1))"

definition double_val :: "double \<Rightarrow> real" where
  "double_val k = real_of_int (sgn k * int (double_scaled (nat \<bar>k\<bar>))) / 2 ^ 1074"

definition double_one :: double where
  "double_one = 1023 * 2 ^ 52"

text \<open>\<^verbatim>\<open>np.nextafter(x1, x2)\<close>: the next representable number after \<open>x1\<close> in the direction
  of \<open>x2\<close>, and \<open>x2\<close> when the two are equal.\<close>

definition nextafter :: "double \<Rightarrow> double \<Rightarrow> double" where
  "nextafter x1 x2 = (if x1 < x2 then x1 + 1 else if x2 < x1 then x1 - 1 else x2)"

subsection \<open>Python objects, ranges and domains\<close>

text \<open>A dictionary key or a set member: \<^verbatim>\<open>None\<close>, a \<^verbatim>\<open>str\<close>, or any other object.\<close>

datatype 'a pyobj = PyNone | PyStr string | PyObj 'a

text \<open>
  One range of a Pyomo range set. A \<^verbatim>\<open>NumericRange\<close> has the attributes \<^verbatim>\<open>start\<close>,
  \<^verbatim>\<open>end\<close> (each \<^verbatim>\<open>None\<close> when the range is unbounded on that side), \<^verbatim>\<open>step\<close> and the pair
  \<^verbatim>\<open>closed\<close>; a range of another class is only known by its \<^verbatim>\<open>step\<close>.
\<close>

datatype range =
    NumericRange (start: "double option") (end_r: "double option") (step: int)
      (closed_r: "bool \<times> bool")
  | OtherRange int

fun range_step :: "range \<Rightarrow> int" where
  "range_step (NumericRange s e st cl) = st"
| "range_step (OtherRange st) = st"

text \<open>A \<^verbatim>\<open>pyomo.RangeSet\<close>: its ranges, and whether it is a \<^verbatim>\<open>FiniteSimpleRangeSet\<close>.\<close>

datatype range_set = RangeSet (ranges: "range list") (finite_simple: bool)

text \<open>The domain of a variable: a range set, a \<^verbatim>\<open>pyomo.Set\<close> with what \<^verbatim>\<open>isfinite()\<close>,
  \<^verbatim>\<open>isordered()\<close>, \<^verbatim>\<open>ordered_data()\<close> and \<^verbatim>\<open>data()\<close> return, or anything else.\<close>

datatype 'a domain =
    RangeSetDomain range_set
  | SetDomain (isfinite: bool) (isordered: bool) (ordered_data: "'a pyobj list")
      (data: "'a pyobj list")
  | OtherDomain

subsection \<open>Parameters\<close>

text \<open>
  Modelled from the spec: the parameter primitives \<^verbatim>\<open>p.Scalar\<close> and \<^verbatim>\<open>p.Choice\<close> of
  \<^verbatim>\<open>nevergrad.parametrization\<close>, which are not part of the file. A parameter is the
  descriptor of its constructor's arguments: a scalar with its optional bounds and the
  mark left by \<^verbatim>\<open>set_integer_casting()\<close>, or a choice among the listed options. An option
  is a member of a set, or the Python \<^verbatim>\<open>range(*r)\<close> built from a range \<open>r\<close>.
\<close>

datatype 'a choice_option = Member "'a pyobj" | PyRange range

datatype 'a parameter =
    Scalar (lower: "double option") (upper: "double option") (integer_casting: bool)
  | Choice "'a choice_option list"

fun set_integer_casting :: "'a parameter \<Rightarrow> 'a parameter" where
  "set_integer_casting (Scalar l u i) = Scalar l u True"
| "set_integer_casting (Choice os) = Choice os"

type_synonym 'a ParamDict = "(string \<times> 'a parameter) list"

subsection \<open>Errors\<close>

text \<open>Every exception the file raises is a \<^verbatim>\<open>NotImplementedError\<close>; the constructors are
  its messages (the two raises without a message share \<open>No_message\<close>). Reading a list
  beyond its length is Python's \<^verbatim>\<open>IndexError\<close>, and \<open>ExpressionError\<close> stands for any
  exception of the expression engine, such as reading a variable without value.\<close>

datatype message =
    AbstractModel_is_not_supported
  | Cannot_handle_range_type
  | Cannot_handle_domain_type
  | No_message
  | Cannot_handle_variable_type
  | Cannot_find_objective_function
  | Multi_objective_function_is_not_supported_yet
  | Constraint_type_is_not_supported_yet

datatype error = NotImplementedError message | IndexError | ExpressionError

section \<open>Translating a domain into a parameter\<close>

definition convert_to_ng_name :: "('a \<Rightarrow> string) \<Rightarrow> 'a pyobj \<Rightarrow> string" where
  "convert_to_ng_name str_of pyomo_var_key =
     (case pyomo_var_key of
        PyStr s \<Rightarrow> [CHR 0x22] @ s @ [CHR 0x22]
      | PyNone \<Rightarrow> ''None''
      | PyObj x \<Rightarrow> str_of x)"

definition make_pyomo_range_set_to_parametrization ::
  "range_set \<Rightarrow> 'a ParamDict \<Rightarrow> string \<Rightarrow> error + 'a ParamDict" where
  "make_pyomo_range_set_to_parametrization domain params params_name =
     (let rs = ranges domain; num_ranges = length rs
      in if num_ranges = 1 \<and> range_step (rs ! 0) \<in> set [- 1, 0, 1] then
           (case rs ! 0 of
              NumericRange s e st cl \<Rightarrow>
                (let (lb, ub) = (s, e);
                     (lb, ub) = (if st < 0 then (ub, lb) else (lb, ub));
                     lb = (if lb \<noteq> None \<and> \<not> fst cl
                           then Some (nextafter (the lb) double_one) else lb);
                     ub = (if ub \<noteq> None \<and> \<not> snd cl
                           then Some (nextafter (the ub) (- double_one)) else ub);
                     params = AList.update params_name (Scalar lb ub False) params
                 in if st \<in> set [- 1, 1]
                    then Inr (AList.map_entry params_name set_integer_casting params)
                    else Inr params)
            | OtherRange st \<Rightarrow> Inl (NotImplementedError Cannot_handle_range_type))
         else if finite_simple domain then
           Inr (AList.update params_name (Choice (map PyRange rs)) params)
         else Inl (NotImplementedError Cannot_handle_domain_type))"

section \<open>Translating a variable\<close>

text \<open>
  An entry of a variable's \<^verbatim>\<open>_data\<close> dictionary is a \<^verbatim>\<open>_GeneralVarData\<close>, with what
  \<^verbatim>\<open>is_fixed()\<close> returns and its domain, or an object of another class. A variable
  component is an \<^verbatim>\<open>IndexedVar\<close>, a \<^verbatim>\<open>SimpleVar\<close> or a component of another class; it
  has a name and the dictionary, whose key is \<^verbatim>\<open>None\<close> for the single entry of a
  variable without index.
\<close>

datatype 'a var_data = GeneralVarData (is_fixed: bool) (domain_of: "'a domain") | OtherVarData

datatype var_class = IndexedVar | SimpleVar | OtherVar

record 'a var =
  var_class_of :: var_class
  var_name :: string
  var_items :: "('a pyobj \<times> 'a var_data) list"

text \<open>The body of the loop over \<^verbatim>\<open>model_component._data.items()\<close>, for one item.\<close>

definition make_pyomo_variable_entry ::
  "('a \<Rightarrow> string) \<Rightarrow> string \<Rightarrow> 'a pyobj \<Rightarrow> 'a var_data \<Rightarrow> 'a ParamDict \<Rightarrow> error + 'a ParamDict"
  where
  "make_pyomo_variable_entry str_of name k v params =
     (case v of
        GeneralVarData fixed d \<Rightarrow>
          if fixed then Inl (NotImplementedError No_message)
          else
            (let params_name =
                   (if k = PyNone then name
                    else name @ ''['' @ convert_to_ng_name str_of k @ '']'')
             in case d of
                  RangeSetDomain rs \<Rightarrow>
                    make_pyomo_range_set_to_parametrization rs params params_name
                | SetDomain finite_set ordered odata udata \<Rightarrow>
                    if finite_set then
                      (if ordered
                       then Inr (AList.update params_name (Choice (map Member odata)) params)
                       else Inr (AList.update params_name (Choice (map Member udata)) params))
                    else Inl (NotImplementedError Cannot_handle_domain_type)
                | OtherDomain \<Rightarrow> Inl (NotImplementedError Cannot_handle_domain_type))
      | OtherVarData \<Rightarrow> Inl (NotImplementedError Cannot_handle_variable_type))"

fun make_pyomo_variable_items ::
  "('a \<Rightarrow> string) \<Rightarrow> string \<Rightarrow> ('a pyobj \<times> 'a var_data) list \<Rightarrow> 'a ParamDict
     \<Rightarrow> error + 'a ParamDict" where
  "make_pyomo_variable_items str_of name [] params = Inr params"
| "make_pyomo_variable_items str_of name ((k, v) # items) params =
     (case make_pyomo_variable_entry str_of name k v params of
        Inl e \<Rightarrow> Inl e
      | Inr params' \<Rightarrow> make_pyomo_variable_items str_of name items params')"

definition make_pyomo_variable_to_parametrization ::
  "('a \<Rightarrow> string) \<Rightarrow> 'a var \<Rightarrow> 'a ParamDict \<Rightarrow> error + 'a ParamDict" where
  "make_pyomo_variable_to_parametrization str_of model_component params =
     (if var_class_of model_component \<noteq> IndexedVar \<and> var_class_of model_component \<noteq> SimpleVar
      then Inl (NotImplementedError No_message)
      else make_pyomo_variable_items str_of (var_name model_component)
             (var_items model_component) params)"

section \<open>The adapter\<close>

text \<open>
  The model instance holds the values of its variables, under the names of the
  parameters: the statement \<^verbatim>\<open>self._model_instance.{k} = {v}\<close> that the wrappers execute
  stores the value \<open>v\<close> in the slot \<open>k\<close>. Values are real numbers. Evaluating an expression
  reads the instance and may raise.
\<close>

type_synonym var_store = "string \<rightharpoonup> real"

record objective =
  obj_name :: string
  sense :: int
  obj_expr :: "var_store \<Rightarrow> error + real"

text \<open>A constraint component is a \<^verbatim>\<open>SimpleConstraint\<close> with its expression, an
  \<^verbatim>\<open>IndexedConstraint\<close> with the items of its members, or a component of another class.\<close>

datatype 'a constraint =
    SimpleConstraint string "var_store \<Rightarrow> error + bool"
  | IndexedConstraint string "('a pyobj \<times> (var_store \<Rightarrow> error + bool)) list"
  | OtherConstraint string

fun constraint_name :: "'a constraint \<Rightarrow> string" where
  "constraint_name (SimpleConstraint n e) = n"
| "constraint_name (IndexedConstraint n ms) = n"
| "constraint_name (OtherConstraint n) = n"

text \<open>A model: whether it is a \<^verbatim>\<open>ConcreteModel\<close>, the values of its variables, and for
  each component type the list that \<^verbatim>\<open>component_objects(ctype, active=True)\<close> yields
  (a \<^verbatim>\<open>Param\<close> component is only known by its name).\<close>

record 'a model =
  is_concrete :: bool
  var_values :: var_store
  active_vars :: "'a var list"
  active_params :: "string list"
  active_constraints :: "'a constraint list"
  active_objectives :: "objective list"

text \<open>The adapter object: the attributes \<^verbatim>\<open>__init__\<close> sets, the parametrization with the
  indices of the registered constraint wrappers, the index bound in the objective
  wrapper, and the name recorded in the descriptors.\<close>

record 'a Pyomo =
  model_instance :: var_store
  all_vars :: "'a var list"
  all_params :: "string list"
  all_constraints :: "'a constraint list"
  all_objectives :: "objective list"
  parametrization :: "'a ParamDict"
  cheap_constraints :: "nat list"
  function_index :: nat
  descriptors_name :: string

text \<open>The first loop of \<^verbatim>\<open>__init__\<close>: every variable is translated into the same
  dictionary. The other loops collect the components; the line they print for an
  objective to maximise goes to the console and is not part of the state.\<close>

fun translate_vars :: "('a \<Rightarrow> string) \<Rightarrow> 'a var list \<Rightarrow> 'a ParamDict \<Rightarrow> error + 'a ParamDict"
  where
  "translate_vars str_of [] params = Inr params"
| "translate_vars str_of (v # vs) params =
     (case make_pyomo_variable_to_parametrization str_of v params of
        Inl e \<Rightarrow> Inl e
      | Inr params' \<Rightarrow> translate_vars str_of vs params')"

fun join :: "string \<Rightarrow> string list \<Rightarrow> string" where
  "join sep [] = []"
| "join sep [x] = x"
| "join sep (x # y # ys) = x @ sep @ join sep (y # ys)"

definition Pyomo_init :: "('a \<Rightarrow> string) \<Rightarrow> 'a model \<Rightarrow> error + 'a Pyomo" where
  "Pyomo_init str_of model =
     (if \<not> is_concrete model then Inl (NotImplementedError AbstractModel_is_not_supported)
      else
        case translate_vars str_of (active_vars model) [] of
          Inl e \<Rightarrow> Inl e
        | Inr instru_params \<Rightarrow>
            if active_objectives model = []
            then Inl (NotImplementedError Cannot_find_objective_function)
            else if length (active_objectives model) > 1
            then Inl (NotImplementedError Multi_objective_function_is_not_supported_yet)
            else
              (let exp_tag = join '','' (map obj_name (active_objectives model));
                   exp_tag = exp_tag @ ''|'' @ join '','' (map var_name (active_vars model));
                   exp_tag = exp_tag @ ''|''
                     @ join '','' (map constraint_name (active_constraints model))
               in Inr \<lparr> model_instance = var_values model,
                        all_vars = active_vars model,
                        all_params = active_params model,
                        all_constraints = active_constraints model,
                        all_objectives = active_objectives model,
                        parametrization = instru_params,
                        cheap_constraints = [0 ..< length (active_constraints model)],
                        function_index = 0,
                        descriptors_name = exp_tag \<rparr>))"

section \<open>The evaluation wrappers\<close>

text \<open>The loop that stores every value of the assignment in the model instance.\<close>

fun inject :: "(string \<times> real) list \<Rightarrow> var_store \<Rightarrow> var_store" where
  "inject [] inst = inst"
| "inject ((k, v) # kvs) inst = inject kvs (inst(k \<mapsto> v))"

text \<open>Both wrappers change the model instance of the adapter, also when they raise:
  they return the adapter with the result.\<close>

definition pyomo_obj_function_wrapper ::
  "'a Pyomo \<Rightarrow> nat \<Rightarrow> (string \<times> real) list \<Rightarrow> (error + real) \<times> 'a Pyomo" where
  "pyomo_obj_function_wrapper self i k_model_variables =
     (let self = self\<lparr>model_instance := inject k_model_variables (model_instance self)\<rparr>
      in if i < length (all_objectives self) then
           (case obj_expr (all_objectives self ! i) (model_instance self) of
              Inl e \<Rightarrow> (Inl e, self)
            | Inr x \<Rightarrow> (Inr (x * real_of_int (sense (all_objectives self ! i))), self))
         else (Inl IndexError, self))"

text \<open>The loop over the members of an indexed constraint. \<^verbatim>\<open>ret and value(...)\<close>
  evaluates the member only when \<open>ret\<close> holds, which it does at every iteration.\<close>

fun indexed_constraint_loop ::
  "('a pyobj \<times> (var_store \<Rightarrow> error + bool)) list \<Rightarrow> var_store \<Rightarrow> bool \<Rightarrow> error + bool" where
  "indexed_constraint_loop [] inst ret = Inr ret"
| "indexed_constraint_loop ((k, c) # items) inst ret =
     (case (if ret then c inst else Inr ret) of
        Inl e \<Rightarrow> Inl e
      | Inr ret' \<Rightarrow> if \<not> ret' then Inr ret' else indexed_constraint_loop items inst ret')"

definition pyomo_constraint_wrapper ::
  "'a Pyomo \<Rightarrow> nat \<Rightarrow> (string \<times> real) list \<Rightarrow> (error + bool) \<times> 'a Pyomo" where
  "pyomo_constraint_wrapper self i k_model_variables =
     (let self = self\<lparr>model_instance := inject k_model_variables (model_instance self)\<rparr>
      in if i < length (all_constraints self) then
           (case all_constraints self ! i of
              SimpleConstraint n expr \<Rightarrow> (expr (model_instance self), self)
            | IndexedConstraint n items \<Rightarrow>
                (indexed_constraint_loop items (model_instance self) True, self)
            | OtherConstraint n \<Rightarrow>
                (Inl (NotImplementedError Constraint_type_is_not_supported_yet), self))
         else (Inl IndexError, self))"

section \<open>Notions of the specification\<close>

text \<open>The specification calls Unsupported-Domain the errors of the translation of a
  variable: they are the exceptions raised by the two translating functions.\<close>

definition unsupported_domain :: "error \<Rightarrow> bool" where
  "unsupported_domain e =
     (e = NotImplementedError Cannot_handle_range_type \<or>
      e = NotImplementedError Cannot_handle_domain_type \<or>
      e = NotImplementedError No_message \<or>
      e = NotImplementedError Cannot_handle_variable_type)"

text \<open>The name of a parameter in the words of the specification: the name of the variable
  alone for the entry without index, and otherwise followed by the index in brackets,
  between double quotes when the index is a string and in its plain string form when it
  is not.\<close>

fun claimed_name :: "('a \<Rightarrow> string) \<Rightarrow> string \<Rightarrow> 'a pyobj \<Rightarrow> string" where
  "claimed_name str_of name PyNone = name"
| "claimed_name str_of name (PyStr s) = name @ ''['' @ [CHR 0x22] @ s @ [CHR 0x22] @ '']''"
| "claimed_name str_of name (PyObj x) = name @ ''['' @ str_of x @ '']''"

text \<open>\<open>l\<close> is the smallest representable number strictly greater than \<open>a\<close> (infinity
  included), and \<open>g\<close> the greatest strictly less than \<open>b\<close>.\<close>

definition least_double_above :: "double \<Rightarrow> double \<Rightarrow> bool" where
  "least_double_above a l =
     (\<bar>l\<bar> \<le> double_inf \<and> double_val a < double_val l \<and>
      (\<forall>f. \<bar>f\<bar> \<le> double_inf \<and> double_val a < double_val f \<longrightarrow> double_val l \<le> double_val f))"

definition greatest_double_below :: "double \<Rightarrow> double \<Rightarrow> bool" where
  "greatest_double_below b g =
     (\<bar>g\<bar> \<le> double_inf \<and> double_val g < double_val b \<and>
      (\<forall>f. \<bar>f\<bar> \<le> double_inf \<and> double_val f < double_val b \<longrightarrow> double_val f \<le> double_val g))"

section \<open>Example models\<close>

text \<open>Python's \<^verbatim>\<open>str\<close> on the empty tuple and on the truth values.\<close>

definition str_unit :: "unit \<Rightarrow> string" where
  "str_unit u = ''()''"

definition str_bool :: "bool \<Rightarrow> string" where
  "str_bool b = (if b then ''True'' else ''False'')"

text \<open>A model with one variable over the reals, \<^verbatim>\<open>x = Var(within=Reals)\<close>, and one
  objective to minimise.\<close>

definition reals_model :: "unit model" where
  "reals_model =
     \<lparr> is_concrete = True,
       var_values = Map.empty,
       active_vars =
         [\<lparr> var_class_of = SimpleVar, var_name = ''x'',
            var_items = [(PyNone, GeneralVarData False
              (RangeSetDomain (RangeSet [NumericRange None None 0 (True, True)] False)))] \<rparr>],
       active_params = [],
       active_constraints = [],
       active_objectives = [\<lparr> obj_name = ''obj'', sense = 1, obj_expr = (\<lambda>inst. Inr 0) \<rparr>] \<rparr>"

text \<open>A model with an integer variable \<open>x\<close> between 0 and 1, the objective \<open>8 * x\<close> to
  maximise, an indexed constraint of three members (\<open>x \<le> 2\<close>, \<open>x \<le> 0\<close> and one whose
  evaluation raises) and a component of another constraint class.\<close>

definition x_var :: "bool var" where
  "x_var =
     \<lparr> var_class_of = SimpleVar, var_name = ''x'',
       var_items = [(PyNone, GeneralVarData False
         (RangeSetDomain (RangeSet [NumericRange (Some 0) (Some double_one) 1 (True, True)] False)))] \<rparr>"

definition value_objective :: objective where
  "value_objective =
     \<lparr> obj_name = ''value'', sense = - 1,
       obj_expr = (\<lambda>inst. case inst ''x'' of None \<Rightarrow> Inl ExpressionError | Some v \<Rightarrow> Inr (8 * v)) \<rparr>"

definition member_le :: "real \<Rightarrow> var_store \<Rightarrow> error + bool" where
  "member_le c inst = (case inst ''x'' of None \<Rightarrow> Inl ExpressionError | Some v \<Rightarrow> Inr (v \<le> c))"

definition member_raises :: "var_store \<Rightarrow> error + bool" where
  "member_raises inst = Inl ExpressionError"

definition weight_members :: "(bool pyobj \<times> (var_store \<Rightarrow> error + bool)) list" where
  "weight_members =
     [(PyObj False, member_le 2), (PyObj True, member_le 0), (PyStr ''z'', member_raises)]"

definition example_model :: "bool model" where
  "example_model =
     \<lparr> is_concrete = True,
       var_values = Map.empty,
       active_vars = [x_var],
       active_params = [],
       active_constraints = [IndexedConstraint ''weight'' weight_members, OtherConstraint ''blk''],
       active_objectives = [value_objective] \<rparr>"

definition example_adapter :: "bool Pyomo" where
  "example_adapter =
     \<lparr> model_instance = Map.empty,
       all_vars = [x_var],
       all_params = [],
       all_constraints = [IndexedConstraint ''weight'' weight_members, OtherConstraint ''blk''],
       all_objectives = [value_objective],
       parametrization = [(''x'', Scalar (Some 0) (Some double_one) True)],
       cheap_constraints = [0, 1],
       function_index = 0,
       descriptors_name = ''value|x|weight,blk'' \<rparr>"

text \<open>An indexed variable with a string index and an index that is not a string.\<close>

definition tools_x :: "bool var" where
  "tools_x =
     \<lparr> var_class_of = IndexedVar, var_name = ''x'',
       var_items =
         [(PyStr ''hammer'', GeneralVarData False
             (SetDomain True True [PyObj False, PyObj True] [PyObj True, PyObj False])),
          (PyObj True, GeneralVarData False
             (RangeSetDomain
                (RangeSet [NumericRange (Some 0) (Some double_one) 1 (True, True)] False)))] \<rparr>"

text \<open>The same variable, fixed.\<close>

definition fixed_var :: "bool var" where
  "fixed_var =
     \<lparr> var_class_of = SimpleVar, var_name = ''y'',
       var_items = [(PyNone, GeneralVarData True
         (RangeSetDomain (RangeSet [NumericRange (Some 0) (Some double_one) 1 (True, True)] False)))] \<rparr>"

section \<open>Properties of the double-precision model\<close>

text \<open>The value of an ordinal grows with the ordinal: within one exponent the fraction
  grows, and the last number of an exponent is below the first of the next.\<close>

lemma scaled_step:
  fixes B :: nat
  assumes B: "0 < B"
  defines "f \<equiv> \<lambda>n. if n div B = 0 then n mod B else (B + n mod B) * 2 ^ (n div B - 1)"
  shows "f n < f (Suc n)"
proof -
  define e where "e = n div B"
  define m where "m = n mod B"
  have n: "n = e * B + m" and m: "m < B"
    using B by (simp_all add: e_def m_def)
  have fn: "f n = (if e = 0 then m else (B + m) * 2 ^ (e - 1))"
    by (simp add: f_def e_def m_def)
  show ?thesis
  proof (cases "Suc m < B")
    case True
    have "Suc n = Suc m + e * B" using n by simp
    then have "Suc n div B = Suc m div B + e" "Suc n mod B = Suc m mod B"
      using B by (simp_all only: div_mult_self1 mod_mult_self1)
    with True have "Suc n div B = e" "Suc n mod B = Suc m"
      by simp_all
    then have "f (Suc n) = (if e = 0 then Suc m else (B + Suc m) * 2 ^ (e - 1))"
      by (simp add: f_def)
    with fn show ?thesis by simp
  next
    case False
    with m have m': "Suc m = B" by simp
    have "Suc n = Suc e * B" using n m' by simp
    then have "Suc n div B = Suc e" "Suc n mod B = 0"
      using B by simp_all
    then have fs: "f (Suc n) = B * 2 ^ e"
      by (simp add: f_def)
    show ?thesis
    proof (cases e)
      case 0
      then show ?thesis using fn fs m by simp
    next
      case (Suc e')
      have "(B + m) * 2 ^ e' < (B + B) * (2::nat) ^ e'"
        using m by simp
      also have "\<dots> = B * 2 ^ e" by (simp add: Suc)
      finally show ?thesis using fn fs Suc by simp
    qed
  qed
qed

lemma double_scaled_Suc: "double_scaled n < double_scaled (Suc n)"
  using scaled_step [of "2 ^ 52" n] unfolding double_scaled_def Let_def by simp

lemma double_scaled_strict_mono: "m < n \<Longrightarrow> double_scaled m < double_scaled n"
  by (rule lift_Suc_mono_less) (rule double_scaled_Suc)

lemma double_scaled_0: "double_scaled 0 = 0"
  by (simp add: double_scaled_def)

lemma double_val_strict_mono:
  assumes "a < b"
  shows "double_val a < double_val b"
proof -
  define g where "g k = sgn k * int (double_scaled (nat \<bar>k\<bar>))" for k :: int
  have pos: "0 < k \<Longrightarrow> 0 < g k" for k
    using double_scaled_strict_mono [of 0 "nat \<bar>k\<bar>"] by (simp add: g_def double_scaled_0)
  have neg: "k < 0 \<Longrightarrow> g k < 0" for k
    using double_scaled_strict_mono [of 0 "nat \<bar>k\<bar>"] by (simp add: g_def double_scaled_0)
  have zero: "g 0 = 0" by (simp add: g_def)
  have "g a < g b"
  proof -
    consider "0 < a" | "a = 0" | "a < 0" "0 \<le> b" | "a < 0" "b < 0" by linarith
    then show ?thesis
    proof cases
      case 1
      with assms have "nat \<bar>a\<bar> < nat \<bar>b\<bar>" by simp
      from double_scaled_strict_mono [OF this] 1 assms show ?thesis by (simp add: g_def)
    next
      case 2
      with assms pos [of b] zero show ?thesis by simp
    next
      case 3
      then show ?thesis using neg [of a] pos [of b] zero by (cases "b = 0") auto
    next
      case 4
      with assms have "nat \<bar>b\<bar> < nat \<bar>a\<bar>" by simp
      from double_scaled_strict_mono [OF this] 4 show ?thesis by (simp add: g_def)
    qed
  qed
  then have "real_of_int (g a) < real_of_int (g b)" by simp
  then show ?thesis
    unfolding double_val_def g_def by (simp add: divide_strict_right_mono)
qed

lemma double_val_one: "double_val double_one = 1"
  by (simp add: double_val_def double_one_def double_scaled_def)

section \<open>Properties of the dictionary operations\<close>

lemma map_entry_update:
  "AList.map_entry k f (AList.update k v al) = AList.update k (f v) al"
  by (induction al) auto


lemma double_val_less_iff: "double_val a < double_val b \<longleftrightarrow> a < b"
  using double_val_strict_mono [of a b] double_val_strict_mono [of b a]
  by (cases a b rule: linorder_cases) auto

lemma double_val_le_iff: "double_val a \<le> double_val b \<longleftrightarrow> a \<le> b"
  using double_val_less_iff [of b a] by auto

section \<open>Translation of a single range\<close>

text \<open>What the translation stores for a numeric range of step -1, 0 or 1: the endpoints
  are swapped for a negative step, then moved by \<open>nextafter\<close> where the range is open,
  and the parameter is marked integer when the step is not 0.\<close>

lemma range_translation:
  "st \<in> {- 1, 0, 1} \<Longrightarrow>
   make_pyomo_range_set_to_parametrization (RangeSet [NumericRange s e st cl] fs) params name =
     Inr (AList.update name
       (Scalar
          (let lb = (if st < 0 then e else s)
           in if lb \<noteq> None \<and> \<not> fst cl then Some (nextafter (the lb) double_one) else lb)
          (let ub = (if st < 0 then s else e)
           in if ub \<noteq> None \<and> \<not> snd cl then Some (nextafter (the ub) (- double_one)) else ub)
          (st \<noteq> 0)) params)"
  by (auto simp: make_pyomo_range_set_to_parametrization_def Let_def map_entry_update)

text \<open>
  Claim C6. A single numeric range with closed endpoints, \<open>a\<close> the lower and \<open>b\<close> the
  upper one, gives a scalar parameter with exactly the bounds \<open>a\<close> and \<open>b\<close>: for step 0
  it is not marked integer, for step 1 it is, and for step -1 (the range then starts at
  \<open>b\<close> and ends at \<open>a\<close>) it is marked integer too. No bound is moved.
\<close>

theorem closed_range_bounds_exact:
  "make_pyomo_range_set_to_parametrization
     (RangeSet [NumericRange (Some a) (Some b) 0 (True, True)] fs) params name =
     Inr (AList.update name (Scalar (Some a) (Some b) False) params) \<and>
   make_pyomo_range_set_to_parametrization
     (RangeSet [NumericRange (Some a) (Some b) 1 (True, True)] fs) params name =
     Inr (AList.update name (Scalar (Some a) (Some b) True) params) \<and>
   make_pyomo_range_set_to_parametrization
     (RangeSet [NumericRange (Some b) (Some a) (- 1) (True, True)] fs) params name =
     Inr (AList.update name (Scalar (Some a) (Some b) True) params)"
  by (simp add: range_translation)

text \<open>
  Claim C10. For a numeric range of step -1 the endpoints are swapped before anything
  else: the translation of the range from \<open>s\<close> down to \<open>e\<close> is the translation of the
  range of step 1 from \<open>e\<close> up to \<open>s\<close>, with the same mark for integers. With closed
  endpoints the lower bound is the end of the range and the upper bound its start, and
  when the range descends from \<open>x\<close> to \<open>y \<le> x\<close> the lower bound is at most the upper one.
\<close>

theorem negative_step_swaps_endpoints:
  "make_pyomo_range_set_to_parametrization
     (RangeSet [NumericRange s e (- 1) (True, True)] fs) params name =
     Inr (AList.update name (Scalar e s True) params) \<and>
   make_pyomo_range_set_to_parametrization (RangeSet [NumericRange s e (- 1) cl] fs) params name =
   make_pyomo_range_set_to_parametrization (RangeSet [NumericRange e s 1 cl] fs) params name \<and>
   (double_val y \<le> double_val x \<longrightarrow>
    (\<exists>lo hi. make_pyomo_range_set_to_parametrization
       (RangeSet [NumericRange (Some x) (Some y) (- 1) (True, True)] fs) params name =
       Inr (AList.update name (Scalar (Some lo) (Some hi) True) params) \<and>
       lo = y \<and> hi = x \<and> double_val lo \<le> double_val hi))"
  by (simp add: range_translation Let_def)

theorem negative_step_swaps_endpoints_witness:
  "double_val (2 ^ 62) \<le> double_val (1025 * 2 ^ 52 + 2 ^ 50) \<and>
   make_pyomo_range_set_to_parametrization
     (RangeSet [NumericRange (Some (1025 * 2 ^ 52 + 2 ^ 50)) (Some (2 ^ 62)) (- 1) (True, True)]
        False) ([] :: unit ParamDict) ''x'' =
     Inr [(''x'', Scalar (Some (2 ^ 62)) (Some (1025 * 2 ^ 52 + 2 ^ 50)) True)]"
proof -
  have h: "double_val (2 ^ 62) \<le> double_val (1025 * 2 ^ 52 + 2 ^ 50)"
    by (simp add: double_val_le_iff)
  show ?thesis
    using h negative_step_swaps_endpoints
      [of "Some (1025 * 2 ^ 52 + 2 ^ 50)" "Some (2 ^ 62)" False "[] :: unit ParamDict" "''x''"
        "(True, True)"
        "2 ^ 62" "1025 * 2 ^ 52 + 2 ^ 50"]
    by simp
qed

text \<open>
  An open endpoint is moved by \<^verbatim>\<open>np.nextafter(lb, 1)\<close> and \<^verbatim>\<open>np.nextafter(ub, -1)\<close>, that
  is towards 1 and towards -1, not upwards and downwards. Below 1 the lower bound
  becomes the smallest number above the endpoint, and above -1 the upper bound becomes
  the greatest number below it.
\<close>

lemma open_lower_below_one:
  assumes "a < double_one" and "- double_inf \<le> a"
  shows "make_pyomo_range_set_to_parametrization
       (RangeSet [NumericRange (Some a) e 0 (False, c)] fs) params name =
       Inr (AList.update name
         (Scalar (Some (a + 1))
            (if e \<noteq> None \<and> \<not> c then Some (nextafter (the e) (- double_one)) else e) False)
         params) \<and>
     least_double_above a (a + 1)"
proof -
  have "nextafter a double_one = a + 1"
    using assms(1) by (simp add: nextafter_def)
  moreover have "least_double_above a (a + 1)"
    using assms
    by (auto simp: least_double_above_def double_val_less_iff double_val_le_iff
        double_one_def double_inf_def)
  ultimately show ?thesis
    by (simp add: range_translation)
qed

lemma open_upper_above_minus_one:
  assumes "- double_one < b" and "b \<le> double_inf"
  shows "make_pyomo_range_set_to_parametrization
       (RangeSet [NumericRange s (Some b) 0 (c, False)] fs) params name =
       Inr (AList.update name
         (Scalar (if s \<noteq> None \<and> \<not> c then Some (nextafter (the s) double_one) else s)
            (Some (b - 1)) False)
         params) \<and>
     greatest_double_below b (b - 1)"
proof -
  have "nextafter b (- double_one) = b - 1"
    using assms(1) by (simp add: nextafter_def)
  moreover have "greatest_double_below b (b - 1)"
    using assms
    by (auto simp: greatest_double_below_def double_val_less_iff double_val_le_iff
        double_one_def double_inf_def)
  ultimately show ?thesis
    by (simp add: range_translation)
qed

text \<open>
  Claim C1. The lower bound derived from an open lower endpoint \<open>a\<close> should be the
  smallest representable number above \<open>a\<close>, and the upper bound derived from an open
  upper endpoint \<open>b\<close> the greatest below \<open>b\<close>, for all \<open>a\<close> and \<open>b\<close>. The code does not do
  so from 1 on and from -1 down: for the range from 2 (open) to 5 the lower bound
  becomes the number just below 2, which is outside the range, and for the range from
  -5 to -2 (open) the upper bound becomes the number just above -2. The ordinals
  \<open>2 ^ 62\<close> and \<open>1025 * 2 ^ 52 + 2 ^ 50\<close> are those of 2 and 5.
\<close>

theorem open_bound_moved_outward:
  "make_pyomo_range_set_to_parametrization
     (RangeSet [NumericRange (Some (2 ^ 62)) (Some (1025 * 2 ^ 52 + 2 ^ 50)) 0 (False, True)] False)
     [] ''x'' =
     Inr [(''x'', Scalar (Some (2 ^ 62 - 1)) (Some (1025 * 2 ^ 52 + 2 ^ 50)) False)] \<and>
   double_val (2 ^ 62) = 2 \<and> double_val (1025 * 2 ^ 52 + 2 ^ 50) = 5 \<and>
   double_val (2 ^ 62 - 1) < 2 \<and>
   make_pyomo_range_set_to_parametrization
     (RangeSet [NumericRange (Some (- (1025 * 2 ^ 52 + 2 ^ 50))) (Some (- (2 ^ 62))) 0 (True, False)]
        False) [] ''x'' =
     Inr [(''x'', Scalar (Some (- (1025 * 2 ^ 52 + 2 ^ 50))) (Some (1 - 2 ^ 62)) False)] \<and>
   double_val (- (2 ^ 62)) = - 2 \<and> - 2 < double_val (1 - 2 ^ 62)"
  by (simp add: range_translation nextafter_def double_one_def double_val_def double_scaled_def)

text \<open>
  Claim C2, as it stands, fails: a model whose only variable ranges over all the reals
  is accepted, and its parameter is a scalar without bounds.
\<close>

theorem unbounded_range_accepted:
  "Pyomo_init str_unit reals_model =
     Inr \<lparr> model_instance = Map.empty,
           all_vars = active_vars reals_model,
           all_params = [],
           all_constraints = [],
           all_objectives = active_objectives reals_model,
           parametrization = [(''x'', Scalar None None False)],
           cheap_constraints = [],
           function_index = 0,
           descriptors_name = ''obj|x|'' \<rparr>"
  by (simp add: Pyomo_init_def reals_model_def make_pyomo_variable_to_parametrization_def
      make_pyomo_variable_entry_def make_pyomo_range_set_to_parametrization_def)

text \<open>
  Claim C2, amended. For a single numeric range of step -1, 0 or 1 whose start or end is
  absent, the translation does not fail: it stores a scalar parameter that has no bound
  on the side of the absent endpoint (the sides being swapped for step -1), marked
  integer when the step is not 0.
\<close>

theorem unbounded_range_gives_unbounded_scalar:
  assumes "st \<in> {- 1, 0, 1}" and "s = None \<or> e = None"
  shows "\<exists>lb ub.
     make_pyomo_range_set_to_parametrization (RangeSet [NumericRange s e st cl] fs) params name =
       Inr (AList.update name (Scalar lb ub (st \<noteq> 0)) params) \<and>
     (s = None \<longrightarrow> (if st < 0 then ub else lb) = None) \<and>
     (e = None \<longrightarrow> (if st < 0 then lb else ub) = None)"
  using assms by (auto simp: range_translation)

theorem unbounded_range_gives_unbounded_scalar_witness:
  "(0::int) \<in> {- 1, 0, 1} \<and> (None = (None :: double option) \<or> Some (0::double) = None) \<and>
   (\<exists>lb ub. make_pyomo_range_set_to_parametrization
      (RangeSet [NumericRange None (Some 0) 0 (True, True)] False) [] ''x'' =
      Inr ([(''x'', Scalar lb ub False)] :: unit ParamDict) \<and> lb = None)"
  using unbounded_range_gives_unbounded_scalar
    [of 0 None "Some 0" "(True, True)" False "[] :: unit ParamDict" "''x''"]
  by simp

section \<open>Construction of the adapter\<close>

lemma example_vars_translated:
  "translate_vars str_bool (active_vars example_model) [] =
     Inr [(''x'', Scalar (Some 0) (Some double_one) True)]"
  by (simp add: example_model_def x_var_def make_pyomo_variable_to_parametrization_def
      make_pyomo_variable_entry_def make_pyomo_range_set_to_parametrization_def)

lemma example_model_constructed: "Pyomo_init str_bool example_model = Inr example_adapter"
  using example_vars_translated
  by (simp add: Pyomo_init_def example_model_def example_adapter_def x_var_def
      value_objective_def)

text \<open>
  Claim C4. For a concrete model whose variables are all translated, construction fails
  with \<open>Cannot_find_objective_function\<close> when there is no active objective, with
  \<open>Multi_objective_function_is_not_supported_yet\<close> when there are two or more, and it
  succeeds exactly when there is one.
\<close>

theorem objective_count_decides_construction:
  assumes "is_concrete m" and "translate_vars str_of (active_vars m) [] = Inr ps"
  shows "(length (active_objectives m) = 0 \<longrightarrow>
       Pyomo_init str_of m = Inl (NotImplementedError Cannot_find_objective_function)) \<and>
     (2 \<le> length (active_objectives m) \<longrightarrow>
       Pyomo_init str_of m =
         Inl (NotImplementedError Multi_objective_function_is_not_supported_yet)) \<and>
     ((\<exists>a. Pyomo_init str_of m = Inr a) \<longleftrightarrow> length (active_objectives m) = 1)"
proof -
  have one: "length (active_objectives m) = 1"
    if "\<not> 1 < length (active_objectives m)" "active_objectives m \<noteq> []"
    using that by (cases "active_objectives m") auto
  show ?thesis
    using assms one by (auto simp: Pyomo_init_def Let_def)
qed

theorem objective_count_decides_construction_witness:
  "is_concrete (example_model\<lparr>active_objectives := []\<rparr>) \<and>
   translate_vars str_bool (active_vars (example_model\<lparr>active_objectives := []\<rparr>)) [] =
     Inr [(''x'', Scalar (Some 0) (Some double_one) True)] \<and>
   Pyomo_init str_bool (example_model\<lparr>active_objectives := []\<rparr>) =
     Inl (NotImplementedError Cannot_find_objective_function) \<and>
   Pyomo_init str_bool (example_model\<lparr>active_objectives := [value_objective, value_objective]\<rparr>) =
     Inl (NotImplementedError Multi_objective_function_is_not_supported_yet) \<and>
   (\<exists>a. Pyomo_init str_bool example_model = Inr a)"
proof -
  have c: "is_concrete (example_model\<lparr>active_objectives := os\<rparr>)" for os
    by (simp add: example_model_def)
  have t: "translate_vars str_bool (active_vars (example_model\<lparr>active_objectives := os\<rparr>)) [] =
     Inr [(''x'', Scalar (Some 0) (Some double_one) True)]" for os
    using example_vars_translated by simp
  have c1: "is_concrete example_model"
    by (simp add: example_model_def)
  show ?thesis
    using c t
      objective_count_decides_construction [OF c t, of "[]"]
      objective_count_decides_construction [OF c t, of "[value_objective, value_objective]"]
      objective_count_decides_construction [OF c1 example_vars_translated]
    by (simp add: example_model_def)
qed

section \<open>Evaluation\<close>

lemma inject_append: "inject (xs @ ys) inst = inject ys (inject xs inst)"
  by (induction xs arbitrary: inst) auto

text \<open>After the loop the instance holds every value of an assignment without repeated
  names, and is unchanged elsewhere.\<close>

lemma inject_lookup:
  "distinct (map fst kvs) \<Longrightarrow> (k, v) \<in> set kvs \<Longrightarrow> inject kvs inst k = Some v"
proof (induction kvs arbitrary: inst rule: rev_induct)
  case Nil
  then show ?case by simp
next
  case (snoc kv kvs)
  then show ?case
    by (cases kv) (auto simp: inject_append rev_image_eqI)
qed

lemma inject_other: "k \<notin> fst ` set kvs \<Longrightarrow> inject kvs inst k = inst k"
  by (induction kvs arbitrary: inst) auto

text \<open>
  Claim C3. With a single objective, whose expression evaluates to \<open>V\<close> in the model
  instance that holds the assignment, the objective wrapper returns \<open>V\<close> multiplied by
  the sense of the objective, hence \<open>- V\<close> for a maximisation (sense -1). The instance it
  leaves holds the values of the assignment.
\<close>

theorem objective_wrapper_multiplies_by_sense:
  assumes "all_objectives self = [obj]"
    and "obj_expr obj (inject kvs (model_instance self)) = Inr V"
  shows "fst (pyomo_obj_function_wrapper self 0 kvs) = Inr (V * real_of_int (sense obj)) \<and>
     (sense obj = - 1 \<longrightarrow> fst (pyomo_obj_function_wrapper self 0 kvs) = Inr (- V)) \<and>
     model_instance (snd (pyomo_obj_function_wrapper self 0 kvs)) =
       inject kvs (model_instance self) \<and>
     (distinct (map fst kvs) \<longrightarrow>
        (\<forall>(k, v) \<in> set kvs. inject kvs (model_instance self) k = Some v))"
  using assms by (auto simp: pyomo_obj_function_wrapper_def Let_def inject_lookup)

theorem objective_wrapper_multiplies_by_sense_witness:
  "all_objectives example_adapter = [value_objective] \<and>
   obj_expr value_objective (inject [(''x'', 1)] (model_instance example_adapter)) = Inr 8 \<and>
   sense value_objective = - 1 \<and>
   fst (pyomo_obj_function_wrapper example_adapter 0 [(''x'', 1)]) = Inr (- 8)"
proof -
  have a: "all_objectives example_adapter = [value_objective]"
    by (simp add: example_adapter_def)
  have b: "obj_expr value_objective (inject [(''x'', 1)] (model_instance example_adapter)) = Inr 8"
    by (simp add: example_adapter_def value_objective_def)
  have c: "sense value_objective = - 1"
    by (simp add: value_objective_def)
  show ?thesis
    using a b c objective_wrapper_multiplies_by_sense [OF a b] by simp
qed

lemma loop_first_violation:
  "\<forall>(k', c') \<in> set pre. c' inst = Inr True \<Longrightarrow> c inst = Inr False \<Longrightarrow>
   indexed_constraint_loop (pre @ (k, c) # post) inst True = Inr False"
  by (induction pre) auto

lemma loop_total:
  "\<forall>(k, c) \<in> set items. \<exists>b. c inst = Inr b \<Longrightarrow>
   indexed_constraint_loop items inst True = Inr (\<forall>(k, c) \<in> set items. c inst = Inr True)"
  by (induction items) auto

text \<open>
  Claim C5. For an indexed constraint, in the model instance that holds the assignment:
  when every member evaluates to a truth value, the constraint wrapper returns true if
  and only if every member is satisfied; and when a member is violated after members
  that are all satisfied, it returns false whatever the members after it are, also when
  their evaluation would raise: they are not evaluated.
\<close>

theorem indexed_constraint_is_conjunction:
  assumes "i < length (all_constraints self)"
    and "all_constraints self ! i = IndexedConstraint n items"
  shows "((\<forall>(k, c) \<in> set items. \<exists>b. c (inject kvs (model_instance self)) = Inr b) \<longrightarrow>
       fst (pyomo_constraint_wrapper self i kvs) =
         Inr (\<forall>(k, c) \<in> set items. c (inject kvs (model_instance self)) = Inr True)) \<and>
     (\<forall>pre k c post. items = pre @ (k, c) # post \<and>
        (\<forall>(k', c') \<in> set pre. c' (inject kvs (model_instance self)) = Inr True) \<and>
        c (inject kvs (model_instance self)) = Inr False \<longrightarrow>
        fst (pyomo_constraint_wrapper self i kvs) = Inr False)"
  using assms
  by (auto simp: pyomo_constraint_wrapper_def Let_def loop_total loop_first_violation
      simp del: indexed_constraint_loop.simps)

theorem indexed_constraint_is_conjunction_witness:
  "0 < length (all_constraints example_adapter) \<and>
   all_constraints example_adapter ! 0 = IndexedConstraint ''weight'' weight_members \<and>
   weight_members = [(PyObj False, member_le 2)] @ (PyObj True, member_le 0) #
     [(PyStr ''z'', member_raises)] \<and>
   member_le 2 (inject [(''x'', 1)] (model_instance example_adapter)) = Inr True \<and>
   member_le 0 (inject [(''x'', 1)] (model_instance example_adapter)) = Inr False \<and>
   member_raises (inject [(''x'', 1)] (model_instance example_adapter)) = Inl ExpressionError \<and>
   fst (pyomo_constraint_wrapper example_adapter 0 [(''x'', 1)]) = Inr False"
proof -
  have a: "0 < length (all_constraints example_adapter)"
    by (simp add: example_adapter_def)
  have b: "all_constraints example_adapter ! 0 = IndexedConstraint ''weight'' weight_members"
    by (simp add: example_adapter_def)
  have w: "weight_members = [(PyObj False, member_le 2)] @ (PyObj True, member_le 0) #
     [(PyStr ''z'', member_raises)]"
    by (simp add: weight_members_def)
  have t: "member_le 2 (inject [(''x'', 1)] (model_instance example_adapter)) = Inr True"
    by (simp add: member_le_def)
  have f: "member_le 0 (inject [(''x'', 1)] (model_instance example_adapter)) = Inr False"
    by (simp add: member_le_def)
  have r: "member_raises (inject [(''x'', 1)] (model_instance example_adapter)) = Inl ExpressionError"
    by (simp add: member_raises_def)
  from indexed_constraint_is_conjunction [OF a b, of "[(''x'', 1)]"]
  have "\<forall>pre k c post. weight_members = pre @ (k, c) # post \<and>
        (\<forall>(k', c') \<in> set pre. c' (inject [(''x'', 1)] (model_instance example_adapter)) = Inr True) \<and>
        c (inject [(''x'', 1)] (model_instance example_adapter)) = Inr False \<longrightarrow>
        fst (pyomo_constraint_wrapper example_adapter 0 [(''x'', 1)]) = Inr False"
    by (rule conjunct2)
  then have "weight_members = [(PyObj False, member_le 2)] @ (PyObj True, member_le 0) #
        [(PyStr ''z'', member_raises)] \<and>
      (\<forall>(k', c') \<in> set [(PyObj False, member_le 2)].
         c' (inject [(''x'', 1)] (model_instance example_adapter)) = Inr True) \<and>
      member_le 0 (inject [(''x'', 1)] (model_instance example_adapter)) = Inr False \<longrightarrow>
      fst (pyomo_constraint_wrapper example_adapter 0 [(''x'', 1)]) = Inr False"
    by blast
  with w t f have "fst (pyomo_constraint_wrapper example_adapter 0 [(''x'', 1)]) = Inr False"
    by simp
  with a b w t f r show ?thesis by simp
qed

text \<open>
  Claim C8. A constraint component that is neither a simple nor an indexed constraint
  does not make construction fail: a model that is concrete, whose variables are all
  translated and that has one objective is constructed with the component among its
  constraints and a wrapper registered for it, and it is the constraint wrapper, called
  on the index of the component, that raises
  \<open>Constraint_type_is_not_supported_yet\<close>, for every assignment.
\<close>

theorem unsupported_constraint_raises_at_evaluation:
  assumes "is_concrete m" and "translate_vars str_of (active_vars m) [] = Inr ps"
    and "length (active_objectives m) = 1"
    and "i < length (active_constraints m)"
    and "active_constraints m ! i = OtherConstraint n"
  shows "\<exists>a. Pyomo_init str_of m = Inr a \<and> all_constraints a = active_constraints m \<and>
     i \<in> set (cheap_constraints a) \<and>
     (\<forall>kvs. fst (pyomo_constraint_wrapper a i kvs) =
        Inl (NotImplementedError Constraint_type_is_not_supported_yet))"
  using assms
  by (auto simp: Pyomo_init_def Let_def pyomo_constraint_wrapper_def)

theorem unsupported_constraint_raises_at_evaluation_witness:
  "is_concrete example_model \<and>
   translate_vars str_bool (active_vars example_model) [] =
     Inr [(''x'', Scalar (Some 0) (Some double_one) True)] \<and>
   length (active_objectives example_model) = 1 \<and>
   1 < length (active_constraints example_model) \<and>
   active_constraints example_model ! 1 = OtherConstraint ''blk'' \<and>
   Pyomo_init str_bool example_model = Inr example_adapter \<and>
   fst (pyomo_constraint_wrapper example_adapter 1 [(''x'', 1)]) =
     Inl (NotImplementedError Constraint_type_is_not_supported_yet)"
proof -
  have a: "is_concrete example_model"
    and c: "length (active_objectives example_model) = 1"
    and d: "1 < length (active_constraints example_model)"
    and e: "active_constraints example_model ! 1 = OtherConstraint ''blk''"
    by (simp_all add: example_model_def)
  show ?thesis
    using a c d e example_vars_translated example_model_constructed
      unsupported_constraint_raises_at_evaluation [OF a example_vars_translated c d e]
    by auto
qed

section \<open>Errors of the translation of the variables\<close>

lemma range_set_error:
  "make_pyomo_range_set_to_parametrization d ps n = Inl e \<Longrightarrow> unsupported_domain e"
  by (auto simp: make_pyomo_range_set_to_parametrization_def Let_def unsupported_domain_def
      split: if_splits range.splits)

lemma entry_error:
  "make_pyomo_variable_entry str_of name k v ps = Inl e \<Longrightarrow> unsupported_domain e"
  by (auto simp: make_pyomo_variable_entry_def Let_def unsupported_domain_def
      split: if_splits var_data.splits domain.splits dest: range_set_error)

lemma items_error:
  "make_pyomo_variable_items str_of name items ps = Inl e \<Longrightarrow> unsupported_domain e"
  by (induction items arbitrary: ps) (auto split: sum.splits dest: entry_error)

lemma items_fixed:
  "(k, GeneralVarData True d) \<in> set items \<Longrightarrow>
   \<exists>e. make_pyomo_variable_items str_of name items ps = Inl e"
  by (induction items arbitrary: ps)
    (auto split: sum.splits simp: make_pyomo_variable_entry_def)

lemma var_error:
  "make_pyomo_variable_to_parametrization str_of v ps = Inl e \<Longrightarrow> unsupported_domain e"
  by (auto simp: make_pyomo_variable_to_parametrization_def unsupported_domain_def
      split: if_splits dest: items_error)

lemma var_offending:
  "var_class_of v = OtherVar \<or> (\<exists>k d. (k, GeneralVarData True d) \<in> set (var_items v)) \<Longrightarrow>
   \<exists>e. make_pyomo_variable_to_parametrization str_of v ps = Inl e"
  by (auto simp: make_pyomo_variable_to_parametrization_def intro: items_fixed)

lemma translate_vars_error:
  "translate_vars str_of vs ps = Inl e \<Longrightarrow> unsupported_domain e"
  by (induction vs arbitrary: ps) (auto split: sum.splits dest: var_error)

lemma translate_vars_offending:
  "v \<in> set vs \<Longrightarrow>
   var_class_of v = OtherVar \<or> (\<exists>k d. (k, GeneralVarData True d) \<in> set (var_items v)) \<Longrightarrow>
   \<exists>e. translate_vars str_of vs ps = Inl e"
proof (induction vs arbitrary: ps)
  case Nil
  then show ?case by simp
next
  case (Cons w vs)
  show ?case
  proof (cases "make_pyomo_variable_to_parametrization str_of w ps")
    case (Inl e)
    then show ?thesis by simp
  next
    case (Inr ps')
    with var_offending [of w str_of ps] Cons.prems have "v \<in> set vs" by auto
    from Cons.IH [OF this Cons.prems(2)] Inr show ?thesis by simp
  qed
qed

text \<open>
  Claim C9. A concrete model with a variable component that is neither an indexed nor a
  simple variable, or with a variable that has a fixed entry, is not constructed:
  \<open>Pyomo_init\<close> returns an error, and the error is one of the translation of the
  variables (the one without message when the component or the entry is the first
  thing the translation rejects).
\<close>

theorem fixed_or_foreign_variable_rejected:
  assumes "is_concrete m" and "v \<in> set (active_vars m)"
    and "var_class_of v = OtherVar \<or> (\<exists>k d. (k, GeneralVarData True d) \<in> set (var_items v))"
  shows "\<exists>e. Pyomo_init str_of m = Inl e \<and> unsupported_domain e"
proof -
  from translate_vars_offending [OF assms(2,3)]
  obtain e where e: "translate_vars str_of (active_vars m) [] = Inl e" by blast
  then have "unsupported_domain e" by (rule translate_vars_error)
  with e assms(1) show ?thesis by (simp add: Pyomo_init_def)
qed

theorem fixed_or_foreign_variable_rejected_witness:
  "is_concrete (example_model\<lparr>active_vars := [x_var, fixed_var]\<rparr>) \<and>
   fixed_var \<in> set (active_vars (example_model\<lparr>active_vars := [x_var, fixed_var]\<rparr>)) \<and>
   (PyNone, GeneralVarData True (RangeSetDomain
      (RangeSet [NumericRange (Some 0) (Some double_one) 1 (True, True)] False)))
     \<in> set (var_items fixed_var) \<and>
   Pyomo_init str_bool (example_model\<lparr>active_vars := [x_var, fixed_var]\<rparr>) =
     Inl (NotImplementedError No_message) \<and>
   unsupported_domain (NotImplementedError No_message)"
proof -
  let ?m = "example_model\<lparr>active_vars := [x_var, fixed_var]\<rparr>"
  have a: "is_concrete ?m" by (simp add: example_model_def)
  have b: "fixed_var \<in> set (active_vars ?m)" by simp
  have c: "(PyNone, GeneralVarData True (RangeSetDomain
      (RangeSet [NumericRange (Some 0) (Some double_one) 1 (True, True)] False)))
     \<in> set (var_items fixed_var)"
    by (simp add: fixed_var_def)
  then have c': "var_class_of fixed_var = OtherVar \<or>
      (\<exists>k d. (k, GeneralVarData True d) \<in> set (var_items fixed_var))"
    by blast
  have d: "Pyomo_init str_bool ?m = Inl (NotImplementedError No_message)"
    by (simp add: Pyomo_init_def example_model_def x_var_def fixed_var_def
        make_pyomo_variable_to_parametrization_def make_pyomo_variable_entry_def
        make_pyomo_range_set_to_parametrization_def)
  from fixed_or_foreign_variable_rejected [OF a b c', of str_bool] d
  have "unsupported_domain (NotImplementedError No_message)" by auto
  with a b c d show ?thesis by simp
qed

section \<open>Names of the parameters\<close>

lemma range_set_stores:
  "make_pyomo_range_set_to_parametrization d ps n = Inr ps' \<Longrightarrow> \<exists>p. ps' = AList.update n p ps"
  by (auto simp: make_pyomo_range_set_to_parametrization_def Let_def map_entry_update
      split: if_splits range.splits)

text \<open>An entry that is translated stores one parameter, under the name the claim gives.\<close>

lemma entry_stores:
  "make_pyomo_variable_entry str_of name k v ps = Inr ps' \<Longrightarrow>
   \<exists>p. ps' = AList.update (claimed_name str_of name k) p ps"
  by (cases k)
    (auto simp: make_pyomo_variable_entry_def Let_def convert_to_ng_name_def
      split: if_splits var_data.splits domain.splits dest: range_set_stores)

lemma items_names:
  "make_pyomo_variable_items str_of name items ps = Inr ps' \<Longrightarrow>
   fst ` set ps' = fst ` set ps \<union> (\<lambda>(k, v). claimed_name str_of name k) ` set items"
proof (induction items arbitrary: ps)
  case Nil
  then show ?case by simp
next
  case (Cons kv items)
  obtain k v where kv: "kv = (k, v)" by (cases kv)
  from Cons.prems kv obtain ps1 where
    e: "make_pyomo_variable_entry str_of name k v ps = Inr ps1" and
    r: "make_pyomo_variable_items str_of name items ps1 = Inr ps'"
    by (auto split: sum.splits)
  from entry_stores [OF e] obtain p where
    "ps1 = AList.update (claimed_name str_of name k) p ps" ..
  then have "fst ` set ps1 = {claimed_name str_of name k} \<union> fst ` set ps"
    by (simp add: AList.dom_update)
  with Cons.IH [OF r] kv show ?case by auto
qed

lemma items_names_in_order:
  "make_pyomo_variable_items str_of name items ps = Inr ps' \<Longrightarrow>
   distinct (map (\<lambda>(k, v). claimed_name str_of name k) items) \<Longrightarrow>
   (\<lambda>(k, v). claimed_name str_of name k) ` set items \<inter> fst ` set ps = {} \<Longrightarrow>
   map fst ps' = map fst ps @ map (\<lambda>(k, v). claimed_name str_of name k) items"
proof (induction items arbitrary: ps)
  case Nil
  then show ?case by simp
next
  case (Cons kv items)
  let ?n = "\<lambda>(k, v). claimed_name str_of name k"
  obtain k v where kv: "kv = (k, v)" by (cases kv)
  from Cons.prems(1) kv obtain ps1 where
    e: "make_pyomo_variable_entry str_of name k v ps = Inr ps1" and
    r: "make_pyomo_variable_items str_of name items ps1 = Inr ps'"
    by (auto split: sum.splits)
  from entry_stores [OF e] obtain p where
    p: "ps1 = AList.update (claimed_name str_of name k) p ps" ..
  have fresh: "claimed_name str_of name k \<notin> fst ` set ps"
    using Cons.prems(3) kv by auto
  then have k1: "map fst ps1 = map fst ps @ [claimed_name str_of name k]"
    by (simp add: p AList.update_keys)
  have d: "distinct (map ?n items)"
    using Cons.prems(2) by simp
  have notin: "claimed_name str_of name k \<notin> ?n ` set items"
    using Cons.prems(2) kv by simp
  have dom1: "fst ` set ps1 = {claimed_name str_of name k} \<union> fst ` set ps"
    by (simp add: p AList.dom_update)
  have "?n ` set items \<inter> fst ` set ps = {}"
    using Cons.prems(3) by auto
  with notin dom1 have "?n ` set items \<inter> fst ` set ps1 = {}"
    by auto
  from Cons.IH [OF r d this] k1 kv show ?case by simp
qed

text \<open>Distinct indices have distinct names, when the plain string form tells the
  indices that are not strings apart and is never a text between double quotes.\<close>

lemma bracket_cancel: "name @ ''['' @ a @ '']'' = name @ ''['' @ b @ '']'' \<Longrightarrow> a = b"
  by simp

lemma claimed_name_index:
  "claimed_name str_of name (PyStr s) = name @ ''['' @ ([CHR 0x22] @ s @ [CHR 0x22]) @ '']''"
  "claimed_name str_of name (PyObj x) = name @ ''['' @ str_of x @ '']''"
  by simp_all

lemma claimed_name_inj:
  assumes "inj str_of" and "\<forall>x s. str_of x \<noteq> [CHR 0x22] @ s @ [CHR 0x22]"
  shows "inj (claimed_name str_of name)"
proof (rule injI)
  fix j k :: "'a pyobj"
  assume eq: "claimed_name str_of name j = claimed_name str_of name k"
  show "j = k"
  proof (cases j)
    case PyNone
    then show ?thesis using eq by (cases k) simp_all
  next
    case j: (PyStr s)
    show ?thesis
    proof (cases k)
      case PyNone
      with eq j show ?thesis by simp
    next
      case (PyStr t)
      with eq j have "[CHR 0x22] @ s @ [CHR 0x22] = [CHR 0x22] @ t @ [CHR 0x22]"
        by (simp only: claimed_name_index) (rule bracket_cancel)
      with j PyStr show ?thesis by simp
    next
      case (PyObj x)
      with eq j have "[CHR 0x22] @ s @ [CHR 0x22] = str_of x"
        by (simp only: claimed_name_index) (rule bracket_cancel)
      with assms(2) show ?thesis by metis
    qed
  next
    case j: (PyObj x)
    show ?thesis
    proof (cases k)
      case PyNone
      with eq j show ?thesis by simp
    next
      case (PyStr t)
      with eq j have "str_of x = [CHR 0x22] @ t @ [CHR 0x22]"
        by (simp only: claimed_name_index) (rule bracket_cancel)
      with assms(2) show ?thesis by metis
    next
      case (PyObj y)
      with eq j have "str_of x = str_of y"
        by (simp only: claimed_name_index) (rule bracket_cancel)
      with assms(1) j PyObj show ?thesis by (simp add: inj_eq)
    qed
  qed
qed

lemma distinct_claimed_names:
  assumes "inj str_of" and "\<forall>x s. str_of x \<noteq> [CHR 0x22] @ s @ [CHR 0x22]"
    and "distinct (map fst items)"
  shows "distinct (map (\<lambda>(k, v). claimed_name str_of name k) items)"
proof -
  have "map (\<lambda>(k, v). claimed_name str_of name k) items =
      map (claimed_name str_of name) (map fst items)"
    by (simp add: case_prod_beta comp_def)
  moreover have "inj_on (claimed_name str_of name) (set (map fst items))"
    using claimed_name_inj [OF assms(1,2)] by (rule inj_on_subset) simp
  ultimately show ?thesis
    using assms(3) by (simp only: distinct_map)
qed

lemma inj_str_bool: "inj str_bool"
  by (auto simp: inj_def str_bool_def split: if_splits)

lemma str_bool_unquoted: "\<forall>x s. str_bool x \<noteq> [CHR 0x22] @ s @ [CHR 0x22]"
  by (simp add: str_bool_def)

lemma tools_x_translated:
  "make_pyomo_variable_to_parametrization str_bool tools_x [] =
     Inr [(''x['' @ [CHR 0x22] @ ''hammer'' @ [CHR 0x22] @ '']'',
             Choice [Member (PyObj False), Member (PyObj True)]),
          (''x[True]'', Scalar (Some 0) (Some double_one) True)]"
  by (simp add: make_pyomo_variable_to_parametrization_def tools_x_def
      make_pyomo_variable_entry_def make_pyomo_range_set_to_parametrization_def
      convert_to_ng_name_def str_bool_def)

text \<open>
  Claim C7. When a variable is translated, the names of the parameters after the
  translation are those before it and, for every entry of the variable, the name of
  the variable alone when the entry has no index, and the name followed by the index in
  brackets otherwise, between double quotes when the index is a string and in its plain
  string form when it is not (\<open>claimed_name\<close>). There is exactly one new parameter for
  each entry, in the order of the entries, provided the indices of the entries are
  distinct, the plain string form tells the indices that are not strings apart and is
  never a text between double quotes, and no such name is in use before.
\<close>

theorem one_parameter_per_index_entry:
  assumes "make_pyomo_variable_to_parametrization str_of mc params = Inr params'"
  shows "fst ` set params' =
       fst ` set params \<union> (\<lambda>(k, v). claimed_name str_of (var_name mc) k) ` set (var_items mc) \<and>
     (inj str_of \<and> (\<forall>x s. str_of x \<noteq> [CHR 0x22] @ s @ [CHR 0x22]) \<and>
      distinct (map fst (var_items mc)) \<and>
      (\<lambda>(k, v). claimed_name str_of (var_name mc) k) ` set (var_items mc) \<inter> fst ` set params = {}
      \<longrightarrow> map fst params' =
            map fst params @ map (\<lambda>(k, v). claimed_name str_of (var_name mc) k) (var_items mc))"
proof -
  from assms have items:
    "make_pyomo_variable_items str_of (var_name mc) (var_items mc) params = Inr params'"
    by (simp add: make_pyomo_variable_to_parametrization_def split: if_splits)
  have "map fst params' =
      map fst params @ map (\<lambda>(k, v). claimed_name str_of (var_name mc) k) (var_items mc)"
    if "inj str_of" "\<forall>x s. str_of x \<noteq> [CHR 0x22] @ s @ [CHR 0x22]"
      "distinct (map fst (var_items mc))"
      "(\<lambda>(k, v). claimed_name str_of (var_name mc) k) ` set (var_items mc) \<inter> fst ` set params = {}"
    using items distinct_claimed_names [OF that(1,2,3)] that(4)
    by (rule items_names_in_order)
  with items_names [OF items] show ?thesis by simp
qed

theorem one_parameter_per_index_entry_witness:
  "make_pyomo_variable_to_parametrization str_bool tools_x [] =
     Inr [(''x['' @ [CHR 0x22] @ ''hammer'' @ [CHR 0x22] @ '']'',
             Choice [Member (PyObj False), Member (PyObj True)]),
          (''x[True]'', Scalar (Some 0) (Some double_one) True)] \<and>
   inj str_bool \<and> (\<forall>x s. str_bool x \<noteq> [CHR 0x22] @ s @ [CHR 0x22]) \<and>
   distinct (map fst (var_items tools_x)) \<and>
   map (\<lambda>(k, v). claimed_name str_bool (var_name tools_x) k) (var_items tools_x) =
     [''x['' @ [CHR 0x22] @ ''hammer'' @ [CHR 0x22] @ '']'', ''x[True]'']"
proof -
  have d: "distinct (map fst (var_items tools_x))"
    by (simp add: tools_x_def)
  have "map (\<lambda>(k, v). claimed_name str_bool (var_name tools_x) k) (var_items tools_x) =
     [''x['' @ [CHR 0x22] @ ''hammer'' @ [CHR 0x22] @ '']'', ''x[True]'']"
    using one_parameter_per_index_entry [OF tools_x_translated] inj_str_bool str_bool_unquoted d
    by simp
  with tools_x_translated inj_str_bool str_bool_unquoted d show ?thesis
    by blast
qed

end
